theory Spec2Isabelle
  imports Main "HOL-Library.Sublist"
begin

section \<open>JavaScript values, completions and strings\<close>

text \<open>
  The repository is a Node.js program. A call either returns a value or throws; an
  \<^verbatim>\<open>async\<close> function that throws yields a rejected promise, which is the
  same completion seen by whoever awaits it.  Strings are taken to be ASCII: the
  keyword tables, log levels and column names of the program are, and the case
  conversions below leave every other character as it is.
\<close>

datatype js_error = TypeError | ReferenceError | SyntaxError | SystemError string

datatype jsval = JUndefined | JBool bool | JStr string | JNum int | JDate string

datatype 'a completion = Returned 'a | Threw js_error

definition dquote :: char where
  "dquote = CHR 0x22"

definition squote :: char where
  "squote = CHR 0x27"

definition backslash :: char where
  "backslash = CHR 0x5C"

definition lowerChar :: "char \<Rightarrow> char" where
  "lowerChar c =
     (if 65 \<le> (of_char c :: nat) \<and> (of_char c :: nat) \<le> 90
      then char_of ((of_char c :: nat) + 32) else c)"

definition upperChar :: "char \<Rightarrow> char" where
  "upperChar c =
     (if 97 \<le> (of_char c :: nat) \<and> (of_char c :: nat) \<le> 122
      then char_of ((of_char c :: nat) - 32) else c)"

definition toLowerCase :: "string \<Rightarrow> string" where
  "toLowerCase s = map lowerChar s"

definition toUpperCase :: "string \<Rightarrow> string" where
  "toUpperCase s = map upperChar s"

text \<open>\<^verbatim>\<open>s.includes(k)\<close>: \<open>k\<close> occurs in \<open>s\<close> as a contiguous run of characters.\<close>

definition str_includes :: "string \<Rightarrow> string \<Rightarrow> bool" where
  "str_includes s k = sublist k s"

text \<open>
  \<^verbatim>\<open>path.join(a, b)\<close> on a POSIX host: the arguments that are not empty are
  put together with a separator between them and the result is normalised.  Normalising
  drops empty segments and \<^verbatim>\<open>.\<close> segments; a \<^verbatim>\<open>..\<close> segment removes the
  segment before it, is kept where a relative path has nothing left to remove, and is
  dropped at the root; a trailing separator is kept; an empty result is written
  \<^verbatim>\<open>.\<close>.
\<close>

fun splitOn :: "char \<Rightarrow> string \<Rightarrow> string list" where
  "splitOn sep [] = [[]]"
| "splitOn sep (c # cs) =
     (if c = sep then [] # splitOn sep cs
      else (case splitOn sep cs of [] \<Rightarrow> [[c]] | seg # segs \<Rightarrow> (c # seg) # segs))"

definition normalizeSegment :: "bool \<Rightarrow> string list \<Rightarrow> string \<Rightarrow> string list" where
  "normalizeSegment allowAboveRoot res seg =
     (if seg = [] \<or> seg = ''.'' then res
      else if seg = ''..'' then
        (if res \<noteq> [] \<and> last res \<noteq> ''..'' then butlast res
         else if allowAboveRoot then res @ [''..''] else res)
      else res @ [seg])"

fun joinSegments :: "string list \<Rightarrow> string" where
  "joinSegments [] = []"
| "joinSegments [seg] = seg"
| "joinSegments (seg # next # segs) = seg @ ''/'' @ joinSegments (next # segs)"

definition path_normalize :: "string \<Rightarrow> string" where
  "path_normalize p =
     (if p = [] then ''.''
      else
        (let isAbsolute = (hd p = CHR ''/'');
             trailingSeparator = (last p = CHR ''/'');
             body = joinSegments
                      (foldl (normalizeSegment (\<not> isAbsolute)) [] (splitOn (CHR ''/'') p))
         in if body = [] then
              (if isAbsolute then ''/'' else if trailingSeparator then ''./'' else ''.'')
            else (if isAbsolute then ''/'' else []) @ body
                   @ (if trailingSeparator then ''/'' else [])))"

definition path_join :: "string \<Rightarrow> string \<Rightarrow> string" where
  "path_join a b =
     (let joined = (if a = [] then b else if b = [] then a else a @ ''/'' @ b)
      in if joined = [] then ''.'' else path_normalize joined)"

section \<open>db.js: the log table\<close>

text \<open>
  The database file holds tables; a table is a list of rows and a row gives its columns
  by name.  A table that was never created is absent.
\<close>

type_synonym row = "(string \<times> string) list"

type_synonym database = "string \<Rightarrow> row list option"

text \<open>
  \<^verbatim>\<open>mysql_real_escape_string\<close>: every character of the class
  \<^verbatim>\<open>[\0\x08\x09\x1a\n\r"'\\\%]\<close> is replaced, the others are kept.
\<close>

definition escapeChar :: "char \<Rightarrow> string" where
  "escapeChar c =
     (if c = CHR 0x00 then [backslash, CHR ''0'']
      else if c = CHR 0x08 then [backslash, CHR ''b'']
      else if c = CHR 0x09 then [backslash, CHR ''t'']
      else if c = CHR 0x1A then [backslash, CHR ''z'']
      else if c = CHR 0x0A then [backslash, CHR ''n'']
      else if c = CHR 0x0D then [backslash, CHR ''r'']
      else if c = dquote \<or> c = squote \<or> c = backslash \<or> c = CHR ''%''
        then [backslash, c]
      else [c])"

definition mysql_real_escape_string :: "string \<Rightarrow> string" where
  "mysql_real_escape_string str = concat (map escapeChar str)"

definition logLevels :: "string list" where
  "logLevels = [''DEBUG'', ''INFO'', ''WARNING'', ''ERROR'']"

text \<open>
  \<^verbatim>\<open>INSERT INTO t ... VALUES ...\<close>: the engine appends the row to a table that
  exists and rejects the statement otherwise.
\<close>

definition insertInto :: "string \<Rightarrow> row \<Rightarrow> database \<Rightarrow> database" where
  "insertInto t r db =
     (case db t of None \<Rightarrow> db | Some rows \<Rightarrow> db(t \<mapsto> rows @ [r]))"

text \<open>
  \<^verbatim>\<open>db.log\<close> does not hand the engine a row: it writes the statement as text, with
  the escaped message between two quotes and \<^verbatim>\<open>);\<close> after them.  The engine is
  SQLite, which reads a string literal from its opening quote to the first quote that is
  not doubled, two quotes in a row standing for one; a backslash is a character like any
  other.  \<open>readLiteral\<close> takes the text after the opening quote and gives the value of
  the literal and the text after its closing quote, or nothing when the literal is never
  closed.
\<close>

fun readLiteral :: "string \<Rightarrow> (string \<times> string) option" where
  "readLiteral [] = None"
| "readLiteral [c] = (if c = squote then Some ([], []) else None)"
| "readLiteral (c # d # cs) =
     (if c = squote then
        (if d = squote
         then map_option (\<lambda>vr. (squote # fst vr, snd vr)) (readLiteral cs)
         else Some ([], d # cs))
      else map_option (\<lambda>vr. (c # fst vr, snd vr)) (readLiteral (d # cs)))"

text \<open>
  What the engine makes of the end of the statement.  When the literal is the last
  value and \<^verbatim>\<open>);\<close> is all that follows, the statement inserts the value read.  A
  literal that is never closed is an error, and so is a literal followed by a name (a
  run of letters, digits and underscores that does not begin with a digit): inside the
  list of values a value can only be followed by a comma, the closing parenthesis or an
  operator, and the only operators written with letters are the \<open>operatorWords\<close>.
  Any other continuation may or may not be a statement; the model does not read it.
\<close>

datatype verdict = Inserts string | Rejects | Unread

definition operatorWords :: "string list" where
  "operatorWords = [''AND'', ''OR'', ''NOT'', ''IS'', ''IN'', ''LIKE'', ''GLOB'', ''MATCH'',
                    ''REGEXP'', ''BETWEEN'', ''COLLATE'', ''ISNULL'', ''NOTNULL'', ''ESCAPE'']"

definition isLetter :: "char \<Rightarrow> bool" where
  "isLetter c = ((65 \<le> (of_char c :: nat) \<and> (of_char c :: nat) \<le> 90)
               \<or> (97 \<le> (of_char c :: nat) \<and> (of_char c :: nat) \<le> 122)
               \<or> c = CHR ''_'')"

definition isWordChar :: "char \<Rightarrow> bool" where
  "isWordChar c = (isLetter c \<or> (48 \<le> (of_char c :: nat) \<and> (of_char c :: nat) \<le> 57))"

definition readMessage :: "string \<Rightarrow> verdict" where
  "readMessage escaped =
     (case readLiteral (escaped @ [squote] @ '');'') of
        None \<Rightarrow> Rejects
      | Some vr \<Rightarrow>
         if snd vr = '');'' then Inserts (fst vr)
         else
           (let continuation = dropWhile (\<lambda>c. c = CHR '' '') (snd vr);
                word = takeWhile isWordChar continuation
            in if word \<noteq> [] \<and> isLetter (hd word) \<and> toUpperCase word \<notin> set operatorWords
               then Rejects else Unread))"

text \<open>
  \<^verbatim>\<open>db.log(message, level, suppressOutput)\<close>.  An empty message returns before
  anything is written; a missing level becomes \<^verbatim>\<open>INFO\<close>, and so does a level
  that is not one of \<open>logLevels\<close> once in upper case.  The statement carries the
  level in upper case and the escaped message.  The \<^verbatim>\<open>UUID\<close> and
  \<^verbatim>\<open>DateTime\<close> columns are filled from \<^verbatim>\<open>crypto.randomUUID()\<close> and the
  clock, hold no quote, and are left out of the row.  The console is not part of the
  state, so the \<^verbatim>\<open>catch\<close> branch, which only prints the engine's error, leaves the
  database as the rejected statement left it.  The result is absent where the model does
  not read the statement.
\<close>

definition normaliseLevel :: "string option \<Rightarrow> string" where
  "normaliseLevel level =
     (let level1 = (case level of None \<Rightarrow> ''INFO''
                    | Some l \<Rightarrow> if l = [] then ''INFO'' else l);
          level2 = (if toUpperCase level1 \<in> set logLevels then level1 else ''INFO'')
      in toUpperCase level2)"

definition db_log :: "database \<Rightarrow> string \<Rightarrow> string option \<Rightarrow> database option" where
  "db_log db message level =
     (if message = [] then Some db
      else (case readMessage (mysql_real_escape_string message) of
              Inserts v \<Rightarrow>
                Some (insertInto ''Logs'' [(''Level'', normaliseLevel level), (''Message'', v)] db)
            | Rejects \<Rightarrow> Some db
            | Unread \<Rightarrow> None))"

section \<open>librarian.js: parse\<close>

text \<open>
  The file system maps a path to what is there.  \<^verbatim>\<open>fs.promises.access(p)\<close>
  rejects when nothing is visible at \<open>p\<close>; \<^verbatim>\<open>fs.promises.readdir(p)\<close>
  resolves for a directory with the names of its entries.
\<close>

datatype node = File "nat list" | Directory "string list"

type_synonym filesystem = "string \<Rightarrow> node option"

text \<open>
  What \<^verbatim>\<open>readdir\<close> can hand out for an entry: a plain name, or, only when asked
  for with \<^verbatim>\<open>withFileTypes\<close>, a \<^verbatim>\<open>Dirent\<close> object that knows whether it is
  a directory.  parse calls \<^verbatim>\<open>readdir(path)\<close> with no options.
\<close>

datatype dirent = Name string | Dirent string bool

definition access :: "filesystem \<Rightarrow> string \<Rightarrow> js_error + unit" where
  "access fs p = (case fs p of None \<Rightarrow> Inl (SystemError ''ENOENT'') | Some _ \<Rightarrow> Inr ())"

definition readdir :: "filesystem \<Rightarrow> string \<Rightarrow> js_error + dirent list" where
  "readdir fs p =
     (case fs p of
        None \<Rightarrow> Inl (SystemError ''ENOENT'')
      | Some (File _) \<Rightarrow> Inl (SystemError ''ENOTDIR'')
      | Some (Directory names) \<Rightarrow> Inr (map Name names))"

text \<open>
  The three things parse does with an entry: \<^verbatim>\<open>file.isDirectory()\<close>, which a
  string does not have (calling it is a \<^verbatim>\<open>TypeError\<close>); passing it to
  \<^verbatim>\<open>path.join\<close>, which accepts strings only; and \<^verbatim>\<open>file.toLowerCase()\<close>,
  which a \<^verbatim>\<open>Dirent\<close> does not have.
\<close>

fun isDirectory :: "dirent \<Rightarrow> js_error + bool" where
  "isDirectory (Name s) = Inl TypeError"
| "isDirectory (Dirent s d) = Inr d"

fun joinWith :: "string \<Rightarrow> dirent \<Rightarrow> js_error + string" where
  "joinWith rootPath (Name s) = Inr (path_join rootPath s)"
| "joinWith rootPath (Dirent s d) = Inl TypeError"

fun lowerOf :: "dirent \<Rightarrow> js_error + string" where
  "lowerOf (Name s) = Inr (toLowerCase s)"
| "lowerOf (Dirent s d) = Inl TypeError"

record paths =
  moviePath :: "string option"
  musicPath :: "string option"
  photoPath :: "string option"
  bookPath :: "string option"

definition noPaths :: paths where
  "noPaths = \<lparr>moviePath = None, musicPath = None, photoPath = None, bookPath = None\<rparr>"

datatype mediaType = movie | music | books | photo

fun fuzzyNames :: "mediaType \<Rightarrow> string list" where
  "fuzzyNames movie = [''movie'', ''video'']"
| "fuzzyNames music = [''music'', ''audio'', ''song'']"
| "fuzzyNames books = [''book'', ''documents'', ''epub'', ''pdf'']"
| "fuzzyNames photo = [''photo'', ''picture'']"

text \<open>\<^verbatim>\<open>fuzzyNames.t.some(fuzzyName => dirName.includes(fuzzyName))\<close>\<close>

definition someFuzzy :: "mediaType \<Rightarrow> string \<Rightarrow> bool" where
  "someFuzzy t dirName = list_ex (\<lambda>fuzzyName. str_includes dirName fuzzyName) (fuzzyNames t)"

text \<open>\<^verbatim>\<open>!p\<close> for a variable that is undefined or holds a string.\<close>

definition unset :: "string option \<Rightarrow> bool" where
  "unset p = (p = None \<or> p = Some [])"

text \<open>
  The four assignments in the body of \<^verbatim>\<open>if (file.isDirectory()) { ... }\<close>,
  given \<open>dirName\<close>, the entry's name in lower case: four independent tests, in the
  order movie, music, book, photo, each assigning its variable only while that variable
  is unset.
\<close>

definition assignPaths :: "string \<Rightarrow> string \<Rightarrow> paths \<Rightarrow> paths" where
  "assignPaths rootPath dirName ps =
     (let ps1 = (if someFuzzy movie dirName \<and> unset (moviePath ps)
                 then ps\<lparr>moviePath := Some (path_join rootPath dirName)\<rparr> else ps);
          ps2 = (if someFuzzy music dirName \<and> unset (musicPath ps1)
                 then ps1\<lparr>musicPath := Some (path_join rootPath dirName)\<rparr> else ps1);
          ps3 = (if someFuzzy books dirName \<and> unset (bookPath ps2)
                 then ps2\<lparr>bookPath := Some (path_join rootPath dirName)\<rparr> else ps2);
          ps4 = (if someFuzzy photo dirName \<and> unset (photoPath ps3)
                 then ps3\<lparr>photoPath := Some (path_join rootPath dirName)\<rparr> else ps3)
      in ps4)"

text \<open>
  A call of \<^verbatim>\<open>db.log\<close> as parse makes it: the message and the level argument,
  which is absent in every call but one.  parse does not await these calls, so a run is
  described by the calls it makes, in order, and by how it completes.
\<close>

type_synonym log_call = "string \<times> string option"

text \<open>
  The callback of \<^verbatim>\<open>rootContents.forEach\<close>.  The template literal of the log line
  evaluates \<^verbatim>\<open>file.isDirectory()\<close> first and \<^verbatim>\<open>path.join(rootPath, file)\<close>
  second; only then is \<^verbatim>\<open>db.log\<close> called.
\<close>

definition rootEntry ::
  "string \<Rightarrow> dirent \<Rightarrow> log_call list \<times> paths \<Rightarrow> log_call list \<times> (js_error + paths)" where
  "rootEntry rootPath file st =
     (case st of (logs, ps) \<Rightarrow>
        (case isDirectory file of
           Inl e \<Rightarrow> (logs, Inl e)
         | Inr d \<Rightarrow>
            (case joinWith rootPath file of
               Inl e \<Rightarrow> (logs, Inl e)
             | Inr joined \<Rightarrow>
                (let logs1 = logs @ [(''[LIBRARIAN] -- '' @ (if d then ''(directory) '' else [])
                                        @ joined, None)]
                 in (case isDirectory file of
                       Inl e \<Rightarrow> (logs1, Inl e)
                     | Inr d2 \<Rightarrow>
                        if d2 then
                          (case lowerOf file of
                             Inl e \<Rightarrow> (logs1, Inl e)
                           | Inr dirName \<Rightarrow> (logs1, Inr (assignPaths rootPath dirName ps)))
                        else (logs1, Inr ps))))))"

text \<open>\<^verbatim>\<open>forEach\<close>: the callback on each element in turn; a throw ends the loop.\<close>

fun forEachRoot ::
  "string \<Rightarrow> dirent list \<Rightarrow> log_call list \<times> paths \<Rightarrow> log_call list \<times> (js_error + paths)" where
  "forEachRoot rootPath [] st = (fst st, Inr (snd st))"
| "forEachRoot rootPath (file # files) st =
     (case rootEntry rootPath file st of
        (logs, Inl e) \<Rightarrow> (logs, Inl e)
      | (logs, Inr ps) \<Rightarrow> forEachRoot rootPath files (logs, ps))"

text \<open>\<^verbatim>\<open>if (moviePath) db.log(...)\<close> and its three siblings, in source order.\<close>

definition assuming :: "string \<Rightarrow> string option \<Rightarrow> log_call list" where
  "assuming label p =
     (if unset p then []
      else [(''[LIBRARIAN] Assuming '' @ label @ '' directory is '' @ [dquote] @ the p @ [dquote],
             None)])"

definition notify :: "paths \<Rightarrow> log_call list" where
  "notify ps = assuming ''MOVIE'' (moviePath ps) @ assuming ''MUSIC'' (musicPath ps)
             @ assuming ''PHOTO'' (photoPath ps) @ assuming ''BOOK'' (bookPath ps)"

text \<open>
  \<^verbatim>\<open>mediaContents\<close>: one \<^verbatim>\<open>readdir\<close> per assigned path, awaited in the order
  movie, music, photo, book; the first that rejects ends parse.
\<close>

fun readMedia ::
  "filesystem \<Rightarrow> (string \<times> string option) list \<Rightarrow> js_error + (string \<times> dirent list) list" where
  "readMedia fs [] = Inr []"
| "readMedia fs ((key, p) # rest) =
     (if unset p then readMedia fs rest
      else (case readdir fs (the p) of
              Inl e \<Rightarrow> Inl e
            | Inr listing \<Rightarrow>
               (case readMedia fs rest of
                  Inl e \<Rightarrow> Inl e
                | Inr others \<Rightarrow> Inr ((key, listing) # others))))"

definition mediaKeys :: "paths \<Rightarrow> (string \<times> string option) list" where
  "mediaKeys ps = [(''movie'', moviePath ps), (''music'', musicPath ps),
                   (''photo'', photoPath ps), (''book'', bookPath ps)]"

text \<open>
  The traversal of \<^verbatim>\<open>Object.entries(mediaContents)\<close>: for every item the test
  \<^verbatim>\<open>item.isDirectory()\<close> is evaluated; both branches are empty.
\<close>

fun forEachItem :: "dirent list \<Rightarrow> js_error + unit" where
  "forEachItem [] = Inr ()"
| "forEachItem (item # items) =
     (case isDirectory item of Inl e \<Rightarrow> Inl e | Inr _ \<Rightarrow> forEachItem items)"

fun traverse :: "(string \<times> dirent list) list \<Rightarrow> js_error + unit" where
  "traverse [] = Inr ()"
| "traverse ((mediaType, mediaDirectory) # rest) =
     (case forEachItem mediaDirectory of Inl e \<Rightarrow> Inl e | Inr _ \<Rightarrow> traverse rest)"

definition unableToAccess :: "string \<Rightarrow> string" where
  "unableToAccess rootPath =
     ''[LIBRARIAN] Unable to access '' @ [dquote] @ rootPath @ [dquote]
       @ '', new library will not be parsed.''"

definition loadedSource :: "string \<Rightarrow> string" where
  "loadedSource rootPath =
     ''[LIBRARIAN] Loaded source directory '' @ [dquote] @ rootPath @ [dquote]"

definition parse :: "filesystem \<Rightarrow> string \<Rightarrow> log_call list \<times> jsval completion" where
  "parse fs rootPath =
     (case access fs rootPath of
        Inl _ \<Rightarrow> ([(unableToAccess rootPath, Some ''error'')], Returned (JBool False))
      | Inr _ \<Rightarrow>
         (case readdir fs rootPath of
            Inl e \<Rightarrow> ([], Threw e)
          | Inr rootContents \<Rightarrow>
             (case forEachRoot rootPath rootContents ([(loadedSource rootPath, None)], noPaths) of
                (logs, Inl e) \<Rightarrow> (logs, Threw e)
              | (logs, Inr ps) \<Rightarrow>
                 (case readMedia fs (mediaKeys ps) of
                    Inl e \<Rightarrow> (logs @ notify ps, Threw e)
                  | Inr mediaContents \<Rightarrow>
                     (case traverse mediaContents of
                        Inl e \<Rightarrow> (logs @ notify ps, Threw e)
                      | Inr _ \<Rightarrow> (logs @ notify ps, Returned JUndefined))))))"

text \<open>
  The database once the \<^verbatim>\<open>db.log\<close> calls of a run have been carried out, taken in
  the order in which the run made them.
\<close>

definition deliver :: "database \<Rightarrow> log_call list \<Rightarrow> database option" where
  "deliver db calls =
     foldl (\<lambda>d c. case d of None \<Rightarrow> None | Some d1 \<Rightarrow> db_log d1 (fst c) (snd c)) (Some db) calls"

definition scan :: "filesystem \<Rightarrow> string \<Rightarrow> database \<Rightarrow> database option \<times> jsval completion" where
  "scan fs rootPath db = (deliver db (fst (parse fs rootPath)), snd (parse fs rootPath))"

text \<open>
  The first revision of parse (\<^verbatim>\<open>src/librarian.js\<close>): the access check alone.
  The logged text is \<^verbatim>\<open>String(err)\<close>, the host's description of the error, here
  the parameter \<open>describe\<close>; the function has no \<^verbatim>\<open>return\<close>.
\<close>

definition parse_initial ::
  "(js_error \<Rightarrow> string) \<Rightarrow> filesystem \<Rightarrow> string \<Rightarrow> log_call list \<times> jsval completion" where
  "parse_initial describe fs rootPath =
     (case access fs rootPath of
        Inl err \<Rightarrow> ([(''[LIBRARIAN] '' @ describe err, Some ''error'')], Returned JUndefined)
      | Inr _ \<Rightarrow> ([], Returned JUndefined))"

section \<open>main.js: start-up\<close>

text \<open>
  What \<^verbatim>\<open>prepare\<close> depends on: the environment variable, how
  \<^verbatim>\<open>db.createDefaults()\<close> settles (it only issues statements to the engine), and
  whether the identifier \<^verbatim>\<open>librarian\<close> is bound to the librarian module.
  main.js has no \<^verbatim>\<open>require\<close> for it; where it is unbound, evaluating
  \<^verbatim>\<open>librarian.parse\<close> throws a \<^verbatim>\<open>ReferenceError\<close>.
\<close>

record host =
  LIBRARY_ROOT :: "string option"
  createDefaults :: "js_error option"
  librarian :: bool

datatype action = ConsoleError string | CallParse string | Schedule string

definition noRootMessage :: string where
  "noRootMessage = ''The library root (LIBRARY_ROOT) is not defined in the configuration file, no libary will be built. Please fix ./config.env''"

definition prepare :: "host \<Rightarrow> filesystem \<Rightarrow> action list \<times> jsval completion" where
  "prepare h fs =
     (case createDefaults h of
        Some e \<Rightarrow> ([], Threw e)
      | None \<Rightarrow>
         if unset (LIBRARY_ROOT h) then ([ConsoleError noRootMessage], Returned JUndefined)
         else if \<not> librarian h then ([], Threw ReferenceError)
         else (case snd (parse fs (the (LIBRARY_ROOT h))) of
                 Threw e \<Rightarrow> ([CallParse (the (LIBRARY_ROOT h))], Threw e)
               | Returned _ \<Rightarrow>
                  ([CallParse (the (LIBRARY_ROOT h)), Schedule ''0 */30 * * * *''],
                   Returned JUndefined)))"

section \<open>db.js: getSettings\<close>

text \<open>
  The conversions are the host's: \<^verbatim>\<open>String\<close>, \<^verbatim>\<open>parseInt\<close>,
  \<^verbatim>\<open>new Date\<close> and \<^verbatim>\<open>JSON.parse\<close>; only the last can throw.  Each is
  applied to \<^verbatim>\<open>setting.Value\<close>, which is a string, or absent for a NULL.
\<close>

record builtins =
  String :: "string option \<Rightarrow> jsval"
  parseInt :: "string option \<Rightarrow> jsval"
  newDate :: "string option \<Rightarrow> jsval"
  JSON_parse :: "string option \<Rightarrow> js_error + jsval"

text \<open>
  The \<^verbatim>\<open>switch (setting.Type)\<close> as written: four labelled cases, each one
  assignment to \<^verbatim>\<open>parsedValue\<close>, no \<^verbatim>\<open>break\<close> and no
  \<^verbatim>\<open>default\<close>.  Control enters at the first label equal to the scrutinee and
  runs every statement from there to the end of the switch.
\<close>

definition settingCases :: "builtins \<Rightarrow> string option \<Rightarrow> (string \<times> (js_error + jsval)) list" where
  "settingCases b v =
     [(''string'', Inr (String b v)),
      (''number'', Inr (parseInt b v)),
      (''date'', Inr (newDate b v)),
      (''object'', JSON_parse b v)]"

fun runCases :: "(js_error + jsval) list \<Rightarrow> jsval \<Rightarrow> js_error + jsval" where
  "runCases [] parsedValue = Inr parsedValue"
| "runCases (rhs # rest) parsedValue =
     (case rhs of Inl e \<Rightarrow> Inl e | Inr v \<Rightarrow> runCases rest v)"

definition switchOn :: "string option \<Rightarrow> (string \<times> (js_error + jsval)) list \<Rightarrow> js_error + jsval" where
  "switchOn scrutinee cases =
     runCases (map snd (dropWhile (\<lambda>c. Some (fst c) \<noteq> scrutinee) cases)) JUndefined"

definition parseSetting :: "builtins \<Rightarrow> row \<Rightarrow> js_error + jsval" where
  "parseSetting b setting =
     switchOn (map_of setting ''Type'') (settingCases b (map_of setting ''Value''))"

text \<open>\<^verbatim>\<open>settings[setting.Key]\<close>: the property name for a column value.\<close>

definition propertyKey :: "string option \<Rightarrow> string" where
  "propertyKey k = (case k of None \<Rightarrow> ''null'' | Some key \<Rightarrow> key)"

fun buildSettings ::
  "builtins \<Rightarrow> row list \<Rightarrow> (string \<Rightarrow> jsval option) \<Rightarrow> js_error + (string \<Rightarrow> jsval option)" where
  "buildSettings b [] settings = Inr settings"
| "buildSettings b (setting # rest) settings =
     (case parseSetting b setting of
        Inl e \<Rightarrow> Inl e
      | Inr parsedValue \<Rightarrow>
         buildSettings b rest (settings(propertyKey (map_of setting ''Key'') \<mapsto> parsedValue)))"

definition getSettings :: "builtins \<Rightarrow> database \<Rightarrow> js_error + (string \<Rightarrow> jsval option)" where
  "getSettings b db =
     (case db ''Settings'' of
        None \<Rightarrow> Inl (SystemError ''SQLITE_ERROR'')
      | Some settingsRows \<Rightarrow> buildSettings b settingsRows Map.empty)"

section \<open>db.js: comparePassword\<close>

text \<open>
  \<^verbatim>\<open>bcrypt.compare(password, hashed, callback)\<close> is the library's: it reports
  either an error or whether the password matches.  The hash is a string, or absent
  where the caller hands it \<^verbatim>\<open>undefined\<close>.
\<close>

type_synonym bcrypt_compare = "string \<Rightarrow> string option \<Rightarrow> js_error + bool"

datatype ('a, 'b) settled = Resolved 'a | Rejected 'b

definition comparePassword :: "bcrypt_compare \<Rightarrow> string \<Rightarrow> string option \<Rightarrow> (bool, bool) settled" where
  "comparePassword compare password hashed =
     (case compare password hashed of
        Inl err \<Rightarrow> Rejected False
      | Inr res \<Rightarrow> Resolved True)"

section \<open>db.log: what reaches the log table\<close>

lemma readLiteral_plain:
  "squote \<notin> set xs \<Longrightarrow> readLiteral (xs @ [squote] @ '');'') = Some (xs, '');'')"
proof (induction xs)
  case Nil
  then show ?case by (simp add: squote_def)
next
  case (Cons a xs)
  then show ?case by (cases xs) (auto simp: squote_def)
qed

lemma escapeChar_no_quote:
  "squote \<noteq> c \<Longrightarrow> squote \<notin> set (escapeChar c)"
  by (auto simp: escapeChar_def squote_def backslash_def dquote_def)

lemma escape_no_quote:
  "squote \<notin> set message \<Longrightarrow> squote \<notin> set (mysql_real_escape_string message)"
  by (induction message) (auto simp: mysql_real_escape_string_def escapeChar_no_quote)

text \<open>
  A message without a single quote is written as the row the source means: its level in
  upper case and the escaped message.
\<close>

lemma db_log_plain:
  assumes "message \<noteq> []" and "squote \<notin> set message"
  shows "db_log db message level =
           Some (insertInto ''Logs'' [(''Level'', normaliseLevel level),
                                     (''Message'', mysql_real_escape_string message)] db)"
proof -
  have "readMessage (mysql_real_escape_string message) = Inserts (mysql_real_escape_string message)"
    using readLiteral_plain [OF escape_no_quote [OF assms(2)]] by (simp add: readMessage_def)
  then show ?thesis
    using assms(1) by (simp add: db_log_def)
qed

lemma db_log_other_tables:
  "db_log db message level = Some db1 \<Longrightarrow> t \<noteq> ''Logs'' \<Longrightarrow> db1 t = db t"
  by (auto simp: db_log_def insertInto_def split: if_splits verdict.splits option.splits)

lemma deliver_other_tables:
  "deliver db calls = Some db1 \<Longrightarrow> t \<noteq> ''Logs'' \<Longrightarrow> db1 t = db t"
proof (induction calls arbitrary: db1 rule: rev_induct)
  case Nil
  then show ?case by (simp add: deliver_def)
next
  case (snoc c calls)
  from snoc.prems(1) obtain d where d: "deliver db calls = Some d"
    and l: "db_log d (fst c) (snd c) = Some db1"
    by (auto simp: deliver_def split: option.splits)
  show ?case
    using snoc.IH [OF d snoc.prems(2)] db_log_other_tables [OF l snoc.prems(2)] by simp
qed

text \<open>Whatever a scan writes, it writes to \<^verbatim>\<open>Logs\<close>.\<close>

lemma scan_other_tables:
  "fst (scan fs rootPath db) = Some db1 \<Longrightarrow> t \<noteq> ''Logs'' \<Longrightarrow> db1 t = db t"
  by (simp add: scan_def deliver_other_tables)

section \<open>parse: the access check and the walk\<close>

lemma forEachRoot_throws:
  "forEachRoot rootPath (entry # entries) (logs, ps) = (logs, Inl TypeError)"
  by (cases entry) (simp_all add: rootEntry_def)

lemma unableToAccess_no_quote:
  "squote \<notin> set rootPath \<Longrightarrow> squote \<notin> set (unableToAccess rootPath)"
  by (simp add: unableToAccess_def squote_def dquote_def)

text \<open>
  For a root path without a single quote the access check behaves as the specification
  has it: one call of \<^verbatim>\<open>db.log\<close> with the level \<^verbatim>\<open>'error'\<close>, filed as
  \<^verbatim>\<open>ERROR\<close>, the result \<^verbatim>\<open>false\<close>, and one row more in \<^verbatim>\<open>Logs\<close>.
\<close>

lemma parse_inaccessible_plain_root:
  assumes "access fs rootPath = Inl e" and "squote \<notin> set rootPath"
  shows "parse fs rootPath = ([(unableToAccess rootPath, Some ''error'')], Returned (JBool False))
       \<and> fst (scan fs rootPath db) =
           Some (insertInto ''Logs'' [(''Level'', ''ERROR''),
                   (''Message'', mysql_real_escape_string (unableToAccess rootPath))] db)"
proof -
  have p: "parse fs rootPath = ([(unableToAccess rootPath, Some ''error'')], Returned (JBool False))"
    using assms(1) by (simp add: parse_def)
  have l: "normaliseLevel (Some ''error'') = ''ERROR''"
    by code_simp
  have ne: "unableToAccess rootPath \<noteq> []"
    by (simp add: unableToAccess_def)
  show ?thesis
    using p l db_log_plain [OF ne unableToAccess_no_quote [OF assms(2)]]
    by (simp add: scan_def deliver_def)
qed

text \<open>
  C1.  A root path that does not exist and has an apostrophe in its name,
  \<^verbatim>\<open>/home/kz/Konstantin's Media\<close>.  parse makes its one call of \<^verbatim>\<open>db.log\<close>
  and returns \<^verbatim>\<open>false\<close>, but the statement that call builds is rejected: the
  escaping puts a backslash before the apostrophe, the engine ends the literal there, and
  what follows is the letter \<^verbatim>\<open>s\<close>.  No row is written; the log table is as it
  was.
\<close>

theorem apostrophe_root_logs_nothing:
  "parse Map.empty (''/home/kz/Konstantin'' @ squote # ''s Media'')
     = ([(unableToAccess (''/home/kz/Konstantin'' @ squote # ''s Media''), Some ''error'')],
        Returned (JBool False))
   \<and> readMessage (mysql_real_escape_string
        (unableToAccess (''/home/kz/Konstantin'' @ squote # ''s Media''))) = Rejects
   \<and> fst (scan Map.empty (''/home/kz/Konstantin'' @ squote # ''s Media'')
        [''Users'' \<mapsto> [], ''Settings'' \<mapsto> [], ''Logs'' \<mapsto> []])
     = Some [''Users'' \<mapsto> [], ''Settings'' \<mapsto> [], ''Logs'' \<mapsto> []]"
proof -
  let ?root = "''/home/kz/Konstantin'' @ squote # ''s Media''"
  have p: "parse Map.empty ?root = ([(unableToAccess ?root, Some ''error'')], Returned (JBool False))"
    by (simp add: parse_def access_def)
  have r: "readMessage (mysql_real_escape_string (unableToAccess ?root)) = Rejects"
    by code_simp
  have ne: "unableToAccess ?root \<noteq> []"
    by (simp add: unableToAccess_def)
  show ?thesis
    unfolding p scan_def deliver_def
    using r ne by (simp add: db_log_def)
qed

text \<open>
  The first revision logs the error with the same level, but its result is
  \<^verbatim>\<open>undefined\<close> whether or not the path can be accessed.
\<close>

lemma parse_initial_inaccessible:
  "access fs rootPath = Inl err \<Longrightarrow>
     parse_initial describe fs rootPath
       = ([(''[LIBRARIAN] '' @ describe err, Some ''error'')], Returned JUndefined)"
  by (simp add: parse_initial_def)

lemma parse_initial_result:
  "snd (parse_initial describe fs rootPath) = Returned JUndefined"
  by (simp add: parse_initial_def split: sum.splits)

text \<open>
  A run that throws after its first log call leaves one \<^verbatim>\<open>INFO\<close> row behind.
\<close>

lemma scan_after_one_call:
  assumes "parse fs rootPath = ([(m, None)], c)" and "m \<noteq> []" and "squote \<notin> set m"
  shows "scan fs rootPath db =
           (Some (insertInto ''Logs'' [(''Level'', ''INFO''),
                    (''Message'', mysql_real_escape_string m)] db), c)"
proof -
  have l: "normaliseLevel None = ''INFO''"
    by code_simp
  show ?thesis
    using assms(1) l db_log_plain [OF assms(2,3)] by (simp add: scan_def deliver_def)
qed

lemma loadedSource_lib:
  "loadedSource ''/lib'' \<noteq> [] \<and> squote \<notin> set (loadedSource ''/lib'')"
  by (simp add: loadedSource_def squote_def dquote_def)

text \<open>
  C2.  A library whose movie directory holds two files with the same bytes.  parse throws
  at the first entry of the root; the files are never opened, no identity is computed,
  and the only statement that reaches the database is the insertion of one
  \<^verbatim>\<open>INFO\<close> row into \<^verbatim>\<open>Logs\<close>.  No table holds an item for the files.
\<close>

theorem identical_files_no_item:
  "parse [''/lib'' \<mapsto> Directory [''movies''],
          ''/lib/movies'' \<mapsto> Directory [''a.mkv'', ''b.mkv''],
          ''/lib/movies/a.mkv'' \<mapsto> File [77, 75, 86],
          ''/lib/movies/b.mkv'' \<mapsto> File [77, 75, 86]] ''/lib''
     = ([(loadedSource ''/lib'', None)], Threw TypeError)
   \<and> fst (scan [''/lib'' \<mapsto> Directory [''movies''],
          ''/lib/movies'' \<mapsto> Directory [''a.mkv'', ''b.mkv''],
          ''/lib/movies/a.mkv'' \<mapsto> File [77, 75, 86],
          ''/lib/movies/b.mkv'' \<mapsto> File [77, 75, 86]] ''/lib''
          [''Users'' \<mapsto> [], ''Settings'' \<mapsto> [], ''Logs'' \<mapsto> []])
     = Some [''Users'' \<mapsto> [], ''Settings'' \<mapsto> [],
        ''Logs'' \<mapsto> [[(''Level'', ''INFO''),
                      (''Message'', mysql_real_escape_string (loadedSource ''/lib''))]]]"
proof -
  let ?fs = "[''/lib'' \<mapsto> Directory [''movies''],
          ''/lib/movies'' \<mapsto> Directory [''a.mkv'', ''b.mkv''],
          ''/lib/movies/a.mkv'' \<mapsto> File [77, 75, 86],
          ''/lib/movies/b.mkv'' \<mapsto> File [77::nat, 75, 86]]"
  have p: "parse ?fs ''/lib'' = ([(loadedSource ''/lib'', None)], Threw TypeError)"
    by (simp add: parse_def access_def readdir_def forEachRoot_throws del: forEachRoot.simps)
  show ?thesis
    using p scan_after_one_call [OF p] loadedSource_lib
    by (simp add: insertInto_def fun_upd_twist)
qed


section \<open>parse: the classification block\<close>

text \<open>
  The tests of the block are the keyword table, matched against the name in lower case
  as substrings, and a name that passes no test changes no path.
\<close>

lemma someFuzzy_substring:
  "someFuzzy t (toLowerCase name) \<longleftrightarrow>
     (\<exists>k \<in> set (fuzzyNames t). \<exists>p q. toLowerCase name = p @ k @ q)"
  by (auto simp: someFuzzy_def str_includes_def sublist_def list_ex_iff)

lemma assignPaths_no_match:
  "(\<And>t. \<not> someFuzzy t d) \<Longrightarrow> assignPaths rootPath d ps = ps"
  by (simp add: assignPaths_def)

text \<open>
  C5.  A root with two directories whose names match the movie keywords,
  \<^verbatim>\<open>Movies\<close> before \<^verbatim>\<open>Videos\<close>.  The claim has the first adopted as the root
  of the movie subtree.  parse throws on the first entry instead: the loop over the
  entries ends with the exception, no path is assigned, and no adoption is announced.
\<close>

theorem first_movie_directory_not_adopted:
  "someFuzzy movie (toLowerCase ''Movies'') \<and> someFuzzy movie (toLowerCase ''Videos'')
   \<and> forEachRoot ''/lib'' [Name ''Movies'', Name ''Videos'']
        ([(loadedSource ''/lib'', None)], noPaths)
       = ([(loadedSource ''/lib'', None)], Inl TypeError)
   \<and> parse [''/lib'' \<mapsto> Directory [''Movies'', ''Videos''],
            ''/lib/Movies'' \<mapsto> Directory [], ''/lib/Videos'' \<mapsto> Directory []] ''/lib''
       = ([(loadedSource ''/lib'', None)], Threw TypeError)"
proof -
  have m: "someFuzzy movie (toLowerCase ''Movies'') \<and> someFuzzy movie (toLowerCase ''Videos'')"
    by code_simp
  have p: "parse [''/lib'' \<mapsto> Directory [''Movies'', ''Videos''],
            ''/lib/Movies'' \<mapsto> Directory [], ''/lib/Videos'' \<mapsto> Directory []] ''/lib''
       = ([(loadedSource ''/lib'', None)], Threw TypeError)"
    by (simp add: parse_def access_def readdir_def forEachRoot_throws del: forEachRoot.simps)
  show ?thesis
    using m p by (simp add: forEachRoot_throws del: forEachRoot.simps)
qed

text \<open>
  C6.  A root whose only entry is called \<^verbatim>\<open>misc\<close>.  The name contains no keyword
  of any type, so the claim has it skipped without error; parse throws a
  \<^verbatim>\<open>TypeError\<close> on it, before the block that holds the keyword tests is reached.
\<close>

theorem unmatched_entry_throws:
  "\<not> someFuzzy movie (toLowerCase ''misc'') \<and> \<not> someFuzzy music (toLowerCase ''misc'')
   \<and> \<not> someFuzzy books (toLowerCase ''misc'') \<and> \<not> someFuzzy photo (toLowerCase ''misc'')
   \<and> parse [''/lib'' \<mapsto> Directory [''misc'']] ''/lib''
       = ([(loadedSource ''/lib'', None)], Threw TypeError)"
  by code_simp

text \<open>
  C9.  When the root path is accessible and its listing has at least one entry, parse
  throws a \<^verbatim>\<open>TypeError\<close>: the only \<^verbatim>\<open>db.log\<close> call made is the one that
  announces the loaded directory, no entry is logged, no path is assigned or announced,
  and the loop over the entries does not complete.
\<close>

theorem parse_nonempty_root_throws:
  assumes "access fs rootPath = Inr ()"
      and "readdir fs rootPath = Inr rootContents"
      and "rootContents \<noteq> []"
    shows "parse fs rootPath = ([(loadedSource rootPath, None)], Threw TypeError)
         \<and> forEachRoot rootPath rootContents ([(loadedSource rootPath, None)], noPaths)
             = ([(loadedSource rootPath, None)], Inl TypeError)"
proof -
  obtain entry entries where c: "rootContents = entry # entries"
    using assms(3) by (cases rootContents) auto
  have f: "forEachRoot rootPath rootContents ([(loadedSource rootPath, None)], noPaths)
             = ([(loadedSource rootPath, None)], Inl TypeError)"
    unfolding c by (rule forEachRoot_throws)
  show ?thesis
    using assms(1,2) f by (simp add: parse_def)
qed

theorem parse_nonempty_root_throws_witness:
  "access [''/lib'' \<mapsto> Directory [''Movies'', ''notes.txt'']] ''/lib'' = Inr ()
   \<and> readdir [''/lib'' \<mapsto> Directory [''Movies'', ''notes.txt'']] ''/lib''
       = Inr [Name ''Movies'', Name ''notes.txt'']
   \<and> snd (parse [''/lib'' \<mapsto> Directory [''Movies'', ''notes.txt'']] ''/lib'') = Threw TypeError
   \<and> length (fst (parse [''/lib'' \<mapsto> Directory [''Movies'', ''notes.txt'']] ''/lib'')) = 1"
proof -
  have a: "access [''/lib'' \<mapsto> Directory [''Movies'', ''notes.txt'']] ''/lib'' = Inr ()"
    by (simp add: access_def)
  have r: "readdir [''/lib'' \<mapsto> Directory [''Movies'', ''notes.txt'']] ''/lib''
       = Inr [Name ''Movies'', Name ''notes.txt'']"
    by (simp add: readdir_def)
  show ?thesis
    using a r parse_nonempty_root_throws [OF a r] by simp
qed

section \<open>main.js: prepare\<close>

text \<open>
  C7.  With no library root configured (the variable unset or empty), prepare calls
  parse under no circumstances and installs no schedule; and once the default tables are
  in place it prints the one message that says so and returns, without throwing.
\<close>

theorem prepare_without_root:
  assumes "unset (LIBRARY_ROOT h)"
  shows "(createDefaults h = None \<longrightarrow>
            prepare h fs = ([ConsoleError noRootMessage], Returned JUndefined))
       \<and> (\<forall>root. CallParse root \<notin> set (fst (prepare h fs)))
       \<and> (\<forall>expr. Schedule expr \<notin> set (fst (prepare h fs)))"
  using assms by (auto simp: prepare_def split: option.splits)

theorem prepare_without_root_witness:
  "unset (LIBRARY_ROOT \<lparr>LIBRARY_ROOT = None, createDefaults = None, librarian = True\<rparr>)
   \<and> prepare \<lparr>LIBRARY_ROOT = None, createDefaults = None, librarian = True\<rparr>
        [''/lib'' \<mapsto> Directory []]
       = ([ConsoleError noRootMessage], Returned JUndefined)"
proof -
  have h: "unset (LIBRARY_ROOT \<lparr>LIBRARY_ROOT = None, createDefaults = None, librarian = True\<rparr>)"
    by (simp add: unset_def)
  show ?thesis
    using h prepare_without_root [OF h, of "[''/lib'' \<mapsto> Directory []]"] by simp
qed

text \<open>
  With a library root configured and \<^verbatim>\<open>librarian\<close> unbound, which is how main.js
  stands, prepare throws at the call of parse: no run is started and the schedule is
  never installed.
\<close>

lemma prepare_librarian_unbound:
  "createDefaults h = None \<Longrightarrow> \<not> unset (LIBRARY_ROOT h) \<Longrightarrow> \<not> librarian h \<Longrightarrow>
     prepare h fs = ([], Threw ReferenceError)"
  by (simp add: prepare_def)

section \<open>db.js: settings and passwords\<close>

lemma switchOn_settingCases:
  assumes "ty \<in> set [''string'', ''number'', ''date'', ''object'']"
  shows "switchOn (Some ty) (settingCases b v) = JSON_parse b v"
  using assms by (auto simp: switchOn_def settingCases_def split: sum.splits)

text \<open>
  C8.  For a row whose \<^verbatim>\<open>Type\<close> is one of the four labels, the switch ends in
  the last case whichever label matched: what it yields is what \<^verbatim>\<open>JSON.parse\<close>
  makes of the stored value, and that is the value stored under the row's key, or the
  exception that ends \<^verbatim>\<open>getSettings\<close>.
\<close>

theorem getSettings_falls_through:
  assumes "map_of setting ''Type'' = Some ty"
      and "ty \<in> set [''string'', ''number'', ''date'', ''object'']"
  shows "parseSetting b setting = JSON_parse b (map_of setting ''Value'')
       \<and> buildSettings b (setting # rest) settings =
           (case JSON_parse b (map_of setting ''Value'') of
              Inl e \<Rightarrow> Inl e
            | Inr v \<Rightarrow> buildSettings b rest (settings(propertyKey (map_of setting ''Key'') \<mapsto> v)))"
  using assms(1) switchOn_settingCases [OF assms(2)] by (simp add: parseSetting_def)

theorem getSettings_falls_through_witness:
  "parseSetting \<lparr>String = (\<lambda>v. JStr ''3080''), parseInt = (\<lambda>v. JNum 3080),
                 newDate = (\<lambda>v. JDate ''3080''), JSON_parse = (\<lambda>v. Inr (JNum 3080))\<rparr>
      [(''Key'', ''LISTEN_PORT''), (''Value'', ''3080''), (''Type'', ''string'')] = Inr (JNum 3080)
   \<and> parseSetting \<lparr>String = (\<lambda>v. JStr ''nelfe''), parseInt = (\<lambda>v. JUndefined),
                 newDate = (\<lambda>v. JDate ''Invalid Date''), JSON_parse = (\<lambda>v. Inl SyntaxError)\<rparr>
      [(''Key'', ''TITLE''), (''Value'', ''nelfe''), (''Type'', ''string'')] = Inl SyntaxError"
proof -
  have m: "''string'' \<in> set [''string'', ''number'', ''date'', ''object'']"
    by simp
  have t1: "map_of [(''Key'', ''LISTEN_PORT''), (''Value'', ''3080''), (''Type'', ''string'')] ''Type''
              = Some ''string''"
    by simp
  have t2: "map_of [(''Key'', ''TITLE''), (''Value'', ''nelfe''), (''Type'', ''string'')] ''Type''
              = Some ''string''"
    by simp
  show ?thesis
    using getSettings_falls_through [OF t1 m] getSettings_falls_through [OF t2 m]
    by simp
qed

text \<open>
  \<^verbatim>\<open>comparePassword\<close> looks at the error of the comparison only: it resolves with
  \<^verbatim>\<open>true\<close> whatever the comparison found, and rejects when the comparison reports
  an error, as it does for a hash that is missing.
\<close>

lemma comparePassword_no_error:
  "compare password hashed = Inr res \<Longrightarrow> comparePassword compare password hashed = Resolved True"
  by (simp add: comparePassword_def)

lemma comparePassword_error:
  "compare password hashed = Inl err \<Longrightarrow> comparePassword compare password hashed = Rejected False"
  by (simp add: comparePassword_def)

end
